theory Spec2Isabelle
  imports Main "HOL-Library.Word"
begin

unbundle bit_operations_syntax

section \<open>Data model\<close>

text \<open>
  Shallow embedding of \<^verbatim>\<open>drivers/video/tegra/host/nvhost_syncpt.c\<close>.
  A \<^verbatim>\<open>u32\<close> is a 32-bit word; \<^verbatim>\<open>int\<close> error codes are integers (they
  stay far from the limits of the C type). The parameters \<^verbatim>\<open>id\<close> and
  \<^verbatim>\<open>thresh\<close> of the source are written \<open>cid\<close> and \<open>thr\<close>, because \<open>id\<close> and
  \<open>thresh\<close> are constants here. The embedding is sequential: one caller, and the
  collaborators as functions of the calls made so far.
\<close>

type_synonym u32 = "32 word"

text \<open>
  The registers of the sync aperture that the file touches. The argument is the
  register index: the source addresses \<^verbatim>\<open>HOST1X_SYNC_SYNCPT_0 + id * 4\<close>.
\<close>

datatype reg =
    HOST1X_SYNC_SYNCPT u32
  | HOST1X_SYNC_SYNCPT_BASE u32
  | HOST1X_SYNC_SYNCPT_CPU_INCR

text \<open>
  Every call that leaves the file (register transport, power gate, interrupt
  dispatcher, sleeping, buffer patcher, kernel log) is recorded, in order, in a
  trace kept beside the shadow values.
\<close>

datatype event =
    ModuleBusy
  | ModuleIdle
  | Readl reg
  | Writel u32 reg
  | Wmb
  | RegDump
  | Printk u32 u32 u32
  | DevErr u32
  | DevWarn u32 string u32 u32
  | IntrAddAction u32 u32
  | IntrPutRef nat
  | WaitEvent u32 u32 u32
  | PatchWait nat u32 u32

text \<open>
  \<^verbatim>\<open>struct nvhost_syncpt\<close>: the arrays \<^verbatim>\<open>min_val\<close>, \<^verbatim>\<open>max_val\<close> and
  \<^verbatim>\<open>base_val\<close> are lists, so that an index past the end is visible.
\<close>

record nvhost_syncpt =
  min_val :: "u32 list"
  max_val :: "u32 list"
  base_val :: "u32 list"
  trace :: "event list"

text \<open>\<^verbatim>\<open>struct nvhost_waitchk\<close>, one wait descriptor of a command buffer.\<close>

record nvhost_waitchk =
  mem :: nat
  offset :: u32
  syncpt_id :: u32
  thresh :: u32

text \<open>
  Constants that the file takes from headers outside the source tree are
  parameters. \<open>host_wait_override\<close> stands for the value of
  \<^verbatim>\<open>nvhost_class_host_wait_syncpt(NVSYNCPT_GRAPHICS_HOST, 0)\<close>.
\<close>

record config =
  NVSYNCPTS_CLIENT_MANAGED :: u32
  NV_HOST1X_SYNCPT_NB_PTS :: u32
  HZ :: u32
  NVHOST_NO_TIMEOUT :: u32
  host_wait_override :: u32

text \<open>
  The collaborators answer as functions of the calls made so far and of the
  arguments of the call. \<open>nvhost_intr_add_action\<close> gives the error code and the
  reference it stores through \<^verbatim>\<open>&ref\<close>; \<open>wait_event_interruptible_timeout\<close>
  gives the value of the kernel macro: positive when the condition became true,
  zero when the slice elapsed, negative when a signal arrived.
\<close>

record environment =
  readl :: "event list \<Rightarrow> reg \<Rightarrow> u32"
  nvhost_intr_add_action :: "event list \<Rightarrow> u32 \<Rightarrow> u32 \<Rightarrow> int \<times> nat"
  wait_event_interruptible_timeout :: "event list \<Rightarrow> u32 \<Rightarrow> int"
  nvmap_patch_wait :: "event list \<Rightarrow> nat \<Rightarrow> u32 \<Rightarrow> u32 \<Rightarrow> int"

text \<open>
  Two ways of not returning normally: \<open>BUG\<close> is the kernel's \<^verbatim>\<open>BUG()\<close> or a
  \<^verbatim>\<open>BUG_ON\<close> that fired; \<open>UNDEFINED\<close> is behaviour that C leaves undefined
  (an array index past the end, a shift by the width of the type or more).
\<close>

datatype fault = BUG | UNDEFINED

text \<open>The two error numbers of the kernel that the file returns or passes on.\<close>

definition EAGAIN :: int where
  "EAGAIN = 11"


section \<open>Comparisons\<close>

text \<open>
  \<^verbatim>\<open>BIT(nr)\<close> is \<^verbatim>\<open>1UL << nr\<close>; \<^verbatim>\<open>unsigned long\<close> has 32 bits on the ARM
  target of this driver.
\<close>

definition BIT :: "u32 \<Rightarrow> fault + u32" where
  "BIT nr = (if unat nr < 32 then Inr (push_bit (unat nr) 1) else Inl UNDEFINED)"

definition client_managed :: "config \<Rightarrow> u32 \<Rightarrow> fault + bool" where
  "client_managed cfg cid =
     (case BIT cid of
        Inl f \<Rightarrow> Inl f
      | Inr b \<Rightarrow> Inr (b AND NVSYNCPTS_CLIENT_MANAGED cfg \<noteq> 0))"

definition array_read :: "u32 list \<Rightarrow> u32 \<Rightarrow> fault + u32" where
  "array_read xs i = (if unat i < length xs then Inr (xs ! unat i) else Inl UNDEFINED)"

definition check_max :: "config \<Rightarrow> nvhost_syncpt \<Rightarrow> u32 \<Rightarrow> u32 \<Rightarrow> fault + bool" where
  "check_max cfg sp cid real =
     (case client_managed cfg cid of
        Inl f \<Rightarrow> Inl f
      | Inr cm \<Rightarrow>
          if cm then Inr True
          else (case array_read (max_val sp) cid of
                  Inl f \<Rightarrow> Inl f
                | Inr mx \<Rightarrow> Inr (0 \<le> sint (mx - real))))"

definition nvhost_syncpt_is_between :: "u32 \<Rightarrow> u32 \<Rightarrow> u32 \<Rightarrow> bool" where
  "nvhost_syncpt_is_between a b c = (b - a < c - a)"

definition nvhost_syncpt_wrapping_comparison :: "u32 \<Rightarrow> u32 \<Rightarrow> bool" where
  "nvhost_syncpt_wrapping_comparison x y =
     nvhost_syncpt_is_between y x (push_bit 31 1 + y)"

section \<open>Inline helpers of the header\<close>

text \<open>
  The file calls three inline functions of \<^verbatim>\<open>nvhost_syncpt.h\<close>, a header of the
  repository that is not part of the source tree.
\<close>

text \<open>
  Modelled from the spec: \<^verbatim>\<open>nvhost_syncpt_min_cmp\<close> is missing. The spec has it as
  "the cached \<open>min_val[id]\<close> already satisfies the threshold (wraparound-aware
  \<open>>=\<close>)", where \<open>a\<close> has reached \<open>b\<close> "if \<open>(signed)(a - b) >= 0\<close>".
\<close>

definition nvhost_syncpt_min_cmp :: "nvhost_syncpt \<Rightarrow> u32 \<Rightarrow> u32 \<Rightarrow> fault + bool" where
  "nvhost_syncpt_min_cmp sp cid thr =
     (case array_read (min_val sp) cid of
        Inl f \<Rightarrow> Inl f
      | Inr cur \<Rightarrow> Inr (0 \<le> sint (cur - thr)))"

text \<open>
  Modelled from the spec: \<^verbatim>\<open>nvhost_syncpt_min_eq_max\<close> is missing. The spec has it
  as \<open>min_val == max_val\<close> for the counter ("min has not yet caught up to max" is
  its negation).
\<close>

definition nvhost_syncpt_min_eq_max :: "nvhost_syncpt \<Rightarrow> u32 \<Rightarrow> fault + bool" where
  "nvhost_syncpt_min_eq_max sp cid =
     (case array_read (min_val sp) cid of
        Inl f \<Rightarrow> Inl f
      | Inr mn \<Rightarrow>
          (case array_read (max_val sp) cid of
             Inl f \<Rightarrow> Inl f
           | Inr mx \<Rightarrow> Inr (mn = mx)))"

text \<open>
  Modelled from the spec: \<^verbatim>\<open>nvhost_syncpt_incr_max\<close> is missing. The spec has it as
  the atomic increment of \<open>max_val[id]\<close> by the number of units reserved; the new
  value is returned.
\<close>

definition nvhost_syncpt_incr_max ::
  "nvhost_syncpt \<Rightarrow> u32 \<Rightarrow> u32 \<Rightarrow> (fault + u32) \<times> nvhost_syncpt" where
  "nvhost_syncpt_incr_max sp cid incrs =
     (if unat cid < length (max_val sp)
      then (Inr (max_val sp ! unat cid + incrs),
            sp\<lparr>max_val := (max_val sp)[unat cid := max_val sp ! unat cid + incrs]\<rparr>)
      else (Inl UNDEFINED, sp))"

section \<open>Power gate\<close>

definition nvhost_module_busy :: "nvhost_syncpt \<Rightarrow> nvhost_syncpt" where
  "nvhost_module_busy sp = sp\<lparr>trace := trace sp @ [ModuleBusy]\<rparr>"

definition nvhost_module_idle :: "nvhost_syncpt \<Rightarrow> nvhost_syncpt" where
  "nvhost_module_idle sp = sp\<lparr>trace := trace sp @ [ModuleIdle]\<rparr>"

section \<open>Reading the hardware value\<close>

text \<open>
  \<^verbatim>\<open>atomic_cmpxchg\<close> on one cell of an array: the cell is replaced when it holds
  \<open>old\<close>, and the value found there is returned.
\<close>

definition atomic_cmpxchg :: "u32 list \<Rightarrow> nat \<Rightarrow> u32 \<Rightarrow> u32 \<Rightarrow> u32 \<times> u32 list" where
  "atomic_cmpxchg xs i old new = (xs ! i, if xs ! i = old then xs[i := new] else xs)"

text \<open>
  The \<^verbatim>\<open>do ... while\<close> loop of \<^verbatim>\<open>nvhost_syncpt_update_min\<close>. The embedding is
  sequential, so nothing writes \<open>min_val\<close> between the read of \<open>old\<close> and the
  exchange; the termination proof is that the loop never takes its back edge.
\<close>

function update_min_loop :: "environment \<Rightarrow> nvhost_syncpt \<Rightarrow> u32 \<Rightarrow> u32 \<times> nvhost_syncpt" where
  "update_min_loop env sp cid =
     (let old = min_val sp ! unat cid;
          live = readl env (trace sp) (HOST1X_SYNC_SYNCPT cid);
          sp1 = sp\<lparr>trace := trace sp @ [Readl (HOST1X_SYNC_SYNCPT cid)]\<rparr>;
          r = atomic_cmpxchg (min_val sp1) (unat cid) old live;
          sp2 = sp1\<lparr>min_val := snd r\<rparr>
      in if fst r \<noteq> old then update_min_loop env sp2 cid else (live, sp2))"
  by pat_completeness auto
termination
  by (relation "{}") (simp_all add: atomic_cmpxchg_def)

declare update_min_loop.simps [simp del]

definition nvhost_syncpt_update_min ::
  "config \<Rightarrow> environment \<Rightarrow> nvhost_syncpt \<Rightarrow> u32 \<Rightarrow> (fault + u32) \<times> nvhost_syncpt" where
  "nvhost_syncpt_update_min cfg env sp cid =
     (if \<not> unat cid < length (min_val sp) then (Inl UNDEFINED, sp)
      else
        (case update_min_loop env sp cid of
           (live, sp1) \<Rightarrow>
             (case check_max cfg sp1 cid live of
                Inl f \<Rightarrow> (Inl f, sp1)
              | Inr ok \<Rightarrow>
                  if \<not> ok
                  then (Inl BUG,
                        sp1\<lparr>trace := trace sp1 @ [RegDump, Printk cid (max_val sp1 ! unat cid) live]\<rparr>)
                  else (Inr live, sp1))))"

section \<open>Incrementing\<close>

definition nvhost_syncpt_cpu_incr ::
  "config \<Rightarrow> nvhost_syncpt \<Rightarrow> u32 \<Rightarrow> (fault + unit) \<times> nvhost_syncpt" where
  "nvhost_syncpt_cpu_incr cfg sp cid =
     (case client_managed cfg cid of
        Inl f \<Rightarrow> (Inl f, sp)
      | Inr cm \<Rightarrow>
          (case (if cm then Inr False else nvhost_syncpt_min_eq_max sp cid) of
             Inl f \<Rightarrow> (Inl f, sp)
           | Inr no_pending \<Rightarrow>
               if no_pending then (Inl BUG, sp\<lparr>trace := trace sp @ [DevErr cid]\<rparr>)
               else
                 (case BIT cid of
                    Inl f \<Rightarrow> (Inl f, sp)
                  | Inr b \<Rightarrow>
                      (Inr (),
                       sp\<lparr>trace := trace sp @ [Writel b HOST1X_SYNC_SYNCPT_CPU_INCR, Wmb]\<rparr>))))"

definition nvhost_syncpt_incr ::
  "config \<Rightarrow> nvhost_syncpt \<Rightarrow> u32 \<Rightarrow> (fault + unit) \<times> nvhost_syncpt" where
  "nvhost_syncpt_incr cfg sp cid =
     (case nvhost_syncpt_incr_max sp cid 1 of
        (Inl f, sp1) \<Rightarrow> (Inl f, sp1)
      | (Inr _, sp1) \<Rightarrow>
          (case nvhost_syncpt_cpu_incr cfg (nvhost_module_busy sp1) cid of
             (Inl f, sp2) \<Rightarrow> (Inl f, sp2)
           | (Inr _, sp2) \<Rightarrow> (Inr (), nvhost_module_idle sp2)))"

section \<open>Names\<close>

definition s_syncpt_names :: "string list" where
  "s_syncpt_names =
     [''gfx_host'', '''', '''', '''', '''', '''', '''', '''', '''', '''', '''', '''',
      ''vi_isp_0'', ''vi_isp_1'', ''vi_isp_2'', ''vi_isp_3'', ''vi_isp_4'', ''vi_isp_5'',
      ''2d_0'', ''2d_1'',
      '''', '''',
      ''3d'', ''mpe'', ''disp0'', ''disp1'', ''vblank0'', ''vblank1'', ''mpe_ebm_eof'',
      ''mpe_wr_safe'',
      ''2d_tinyblt'', ''dsi'']"

definition nvhost_syncpt_name :: "u32 \<Rightarrow> fault + string" where
  "nvhost_syncpt_name cid =
     (if unat cid > length s_syncpt_names then Inl BUG
      else if unat cid < length s_syncpt_names then Inr (s_syncpt_names ! unat cid)
      else Inl UNDEFINED)"

section \<open>Waiting\<close>

text \<open>
  The \<^verbatim>\<open>while (timeout)\<close> loop of \<^verbatim>\<open>nvhost_syncpt_wait_timeout\<close>, entered with
  \<^verbatim>\<open>err == 0\<close>. \<^verbatim>\<open>SYNCPT_CHECK_PERIOD\<close> is \<^verbatim>\<open>2*HZ\<close>. The result is the
  value of \<^verbatim>\<open>err\<close> when the loop is left; the loop need not end, so not
  returning is \<open>None\<close>.
\<close>

partial_function (option) wait_loop ::
  "config \<Rightarrow> environment \<Rightarrow> u32 \<Rightarrow> u32 \<Rightarrow> u32 \<Rightarrow> nvhost_syncpt \<Rightarrow>
     ((fault + int) \<times> nvhost_syncpt) option" where
  "wait_loop cfg env cid thr timeout sp =
     (if timeout = 0 then Some (Inr 0, sp)
      else
        let check = min (2 * HZ cfg) timeout;
            err = wait_event_interruptible_timeout env (trace sp) check;
            sp1 = sp\<lparr>trace := trace sp @ [WaitEvent cid thr check]\<rparr>
        in
          if err \<noteq> 0 then Some (Inr err, sp1)
          else
            let timeout1 =
                  (if timeout \<noteq> NVHOST_NO_TIMEOUT cfg then timeout - 2 * HZ cfg else timeout)
            in
              if timeout1 \<noteq> 0 then
                (case nvhost_syncpt_name cid of
                   Inl f \<Rightarrow> Some (Inl f, sp1)
                 | Inr nm \<Rightarrow>
                     wait_loop cfg env cid thr timeout1
                       (sp1\<lparr>trace := trace sp1 @ [DevWarn cid nm thr timeout1]\<rparr>))
              else wait_loop cfg env cid thr timeout1 sp1)"

text \<open>
  \<^verbatim>\<open>nvhost_syncpt_wait_timeout\<close>. Every exit through the label \<^verbatim>\<open>done\<close> marks
  the device idle; the two returns before \<^verbatim>\<open>nvhost_module_busy\<close> do not. A fault
  ends the call where it happens.
\<close>

definition nvhost_syncpt_wait_timeout ::
  "config \<Rightarrow> environment \<Rightarrow> nvhost_syncpt \<Rightarrow> u32 \<Rightarrow> u32 \<Rightarrow> u32 \<Rightarrow>
     ((fault + int) \<times> nvhost_syncpt) option" where
  "nvhost_syncpt_wait_timeout cfg env sp cid thr timeout =
     (case check_max cfg sp cid thr of
        Inl f \<Rightarrow> Some (Inl f, sp)
      | Inr ok \<Rightarrow>
          if \<not> ok then Some (Inl BUG, sp)
          else
            (case nvhost_syncpt_min_cmp sp cid thr of
               Inl f \<Rightarrow> Some (Inl f, sp)
             | Inr reached \<Rightarrow>
                 if reached then Some (Inr 0, sp)
                 else
                   let sp1 = nvhost_module_busy sp;
                       refreshed =
                         (case client_managed cfg cid of
                            Inl f \<Rightarrow> (Inl f, sp1)
                          | Inr cm \<Rightarrow>
                              (case (if cm then Inr False else nvhost_syncpt_min_eq_max sp1 cid) of
                                 Inl f \<Rightarrow> (Inl f, sp1)
                               | Inr eq \<Rightarrow>
                                   if cm \<or> \<not> eq then
                                     (case nvhost_syncpt_update_min cfg env sp1 cid of
                                        (Inl f, sp2) \<Rightarrow> (Inl f, sp2)
                                      | (Inr val, sp2) \<Rightarrow> (Inr (0 \<le> sint (val - thr)), sp2))
                                   else (Inr False, sp1)))
                   in
                     (case refreshed of
                        (Inl f, sp2) \<Rightarrow> Some (Inl f, sp2)
                      | (Inr True, sp2) \<Rightarrow> Some (Inr 0, nvhost_module_idle sp2)
                      | (Inr False, sp2) \<Rightarrow>
                          if timeout = 0 then Some (Inr (- EAGAIN), nvhost_module_idle sp2)
                          else
                            let added = nvhost_intr_add_action env (trace sp2) cid thr;
                                sp3 = sp2\<lparr>trace := trace sp2 @ [IntrAddAction cid thr]\<rparr>
                            in
                              if fst added \<noteq> 0 then Some (Inr (fst added), nvhost_module_idle sp3)
                              else
                                (case wait_loop cfg env cid thr timeout sp3 of
                                   None \<Rightarrow> None
                                 | Some (Inl f, sp4) \<Rightarrow> Some (Inl f, sp4)
                                 | Some (Inr err, sp4) \<Rightarrow>
                                     Some (Inr (if err > 0 then 0
                                                else if err = 0 then - EAGAIN
                                                else err),
                                           nvhost_module_idle
                                             (sp4\<lparr>trace := trace sp4 @ [IntrPutRef (snd added)]\<rparr>))))))"

text \<open>
  The calls of \<open>nvhost_syncpt_wait_timeout\<close> that arrive at the test of the timeout
  with the threshold not reached: the bound check passes, the cached value does not
  satisfy the threshold, and the refresh, when the source performs it, returns a
  value that does not satisfy it either. \<open>sp2\<close> is the registry at that point.
\<close>

definition reaches_timeout_test ::
  "config \<Rightarrow> environment \<Rightarrow> nvhost_syncpt \<Rightarrow> u32 \<Rightarrow> u32 \<Rightarrow> nvhost_syncpt \<Rightarrow> bool" where
  "reaches_timeout_test cfg env sp cid thr sp2 =
     (check_max cfg sp cid thr = Inr True \<and>
      nvhost_syncpt_min_cmp sp cid thr = Inr False \<and>
      (case client_managed cfg cid of
         Inl f \<Rightarrow> False
       | Inr cm \<Rightarrow>
           (case (if cm then Inr False else nvhost_syncpt_min_eq_max sp cid) of
              Inl f \<Rightarrow> False
            | Inr eq \<Rightarrow>
                if cm \<or> \<not> eq then
                  (case nvhost_syncpt_update_min cfg env (nvhost_module_busy sp) cid of
                     (Inl f, sp') \<Rightarrow> False
                   | (Inr val, sp') \<Rightarrow> \<not> 0 \<le> sint (val - thr) \<and> sp2 = sp')
                else sp2 = nvhost_module_busy sp)))"

section \<open>Removing waits that are already satisfied\<close>

text \<open>
  The \<^verbatim>\<open>for\<close> loop of \<^verbatim>\<open>nvhost_syncpt_wait_check\<close> over the counter indices,
  given as the list of the indices still to visit.
\<close>

fun wait_check_refresh ::
  "config \<Rightarrow> environment \<Rightarrow> u32 \<Rightarrow> u32 list \<Rightarrow> nvhost_syncpt \<Rightarrow> (fault + unit) \<times> nvhost_syncpt" where
  "wait_check_refresh cfg env waitchk_mask [] sp = (Inr (), sp)"
| "wait_check_refresh cfg env waitchk_mask (idx # rest) sp =
     (case BIT idx of
        Inl f \<Rightarrow> (Inl f, sp)
      | Inr b \<Rightarrow>
          if b AND waitchk_mask \<noteq> 0 then
            (case nvhost_syncpt_update_min cfg env sp idx of
               (Inl f, sp1) \<Rightarrow> (Inl f, sp1)
             | (Inr _, sp1) \<Rightarrow> wait_check_refresh cfg env waitchk_mask rest sp1)
          else wait_check_refresh cfg env waitchk_mask rest sp)"

text \<open>
  The \<^verbatim>\<open>while (waitchks)\<close> loop: \<open>waitp\<close> is the rest of the caller's array,
  the number is the value of \<^verbatim>\<open>waitchks\<close>. \<^verbatim>\<open>dev_dbg\<close> compiles to nothing
  unless debugging is configured, and its arguments are then not evaluated.
\<close>

fun wait_check_loop ::
  "config \<Rightarrow> environment \<Rightarrow> nvhost_waitchk list \<Rightarrow> nat \<Rightarrow> nvhost_syncpt \<Rightarrow>
     (fault + int) \<times> nvhost_syncpt" where
  "wait_check_loop cfg env waitp 0 sp = (Inr 0, sp)"
| "wait_check_loop cfg env [] (Suc n) sp = (Inl UNDEFINED, sp)"
| "wait_check_loop cfg env (w # rest) (Suc n) sp =
     (if syncpt_id w > NV_HOST1X_SYNCPT_NB_PTS cfg then (Inl BUG, sp)
      else
        (case array_read (min_val sp) (syncpt_id w) of
           Inl f \<Rightarrow> (Inl f, sp)
         | Inr syncpt \<Rightarrow>
             if nvhost_syncpt_wrapping_comparison syncpt (thresh w) then
               let override = host_wait_override cfg;
                   err = nvmap_patch_wait env (trace sp) (mem w) (offset w) override;
                   sp1 = sp\<lparr>trace := trace sp @ [PatchWait (mem w) (offset w) override]\<rparr>
               in if err \<noteq> 0 then (Inr err, sp1)
                  else wait_check_loop cfg env rest n sp1
             else wait_check_loop cfg env rest n sp))"

definition nvhost_syncpt_wait_check ::
  "config \<Rightarrow> environment \<Rightarrow> nvhost_syncpt \<Rightarrow> u32 \<Rightarrow> nvhost_waitchk list option \<Rightarrow> u32 \<Rightarrow>
     (fault + int) \<times> nvhost_syncpt" where
  "nvhost_syncpt_wait_check cfg env sp waitchk_mask waitp waitchks =
     (case wait_check_refresh cfg env waitchk_mask
             (map of_nat [0 ..< unat (NV_HOST1X_SYNCPT_NB_PTS cfg)]) sp of
        (Inl f, sp1) \<Rightarrow> (Inl f, sp1)
      | (Inr _, sp1) \<Rightarrow>
          (case waitp of
             None \<Rightarrow> (Inl BUG, sp1)
           | Some ws \<Rightarrow> wait_check_loop cfg env ws (unat waitchks) sp1))"

section \<open>The specification's reading\<close>

text \<open>
  The window of the specification, read on the numbers: \<open>v\<close> lies in
  \<open>[lo, lo + 2^31)\<close> modulo \<open>2^32\<close> when the distance from \<open>lo\<close> up to \<open>v\<close>,
  taken modulo \<open>2^32\<close>, is below \<open>2^31\<close>.
\<close>

definition in_half_window :: "u32 \<Rightarrow> u32 \<Rightarrow> bool" where
  "in_half_window lo v = ((unat v + 2 ^ 32 - unat lo) mod 2 ^ 32 < (2 :: nat) ^ 31)"

text \<open>
  \<open>check_stale_waits\<close> in the words of the specification. The counters are the
  indices below \<open>N_COUNTERS\<close>; a counter is flagged when its bit is set in the
  mask. \<open>read_counters\<close> is the forced refresh of the counters of a list, in
  order: the hardware value of each is read and stored in its \<open>min_val\<close>.
  \<open>reads_within_max\<close> says that none of these refreshes is fatal: each value read
  passes the bound check against \<open>max_val\<close>. A descriptor is stale when the cached
  \<open>min_val\<close> of its counter has reached its threshold, \<open>(signed)(a - b) >= 0\<close>;
  \<open>patch_in_order\<close> patches the descriptors of a list in order and stops at the
  first patch that fails, whose error it returns. \<open>refresh_mins\<close> is the sequence
  of calls of \<open>nvhost_syncpt_update_min\<close> that the source makes for a list of
  counters.
\<close>

definition counters :: "config \<Rightarrow> u32 list" where
  "counters cfg = map of_nat [0 ..< unat (NV_HOST1X_SYNCPT_NB_PTS cfg)]"

definition flagged :: "u32 \<Rightarrow> u32 \<Rightarrow> bool" where
  "flagged waitchk_mask idx = bit waitchk_mask (unat idx)"

fun refresh_mins ::
  "config \<Rightarrow> environment \<Rightarrow> u32 list \<Rightarrow> nvhost_syncpt \<Rightarrow> (fault + unit) \<times> nvhost_syncpt" where
  "refresh_mins cfg env [] sp = (Inr (), sp)"
| "refresh_mins cfg env (idx # rest) sp =
     (case nvhost_syncpt_update_min cfg env sp idx of
        (Inl f, sp1) \<Rightarrow> (Inl f, sp1)
      | (Inr _, sp1) \<Rightarrow> refresh_mins cfg env rest sp1)"

fun read_counters :: "environment \<Rightarrow> u32 list \<Rightarrow> nvhost_syncpt \<Rightarrow> nvhost_syncpt" where
  "read_counters env [] sp = sp"
| "read_counters env (idx # rest) sp =
     read_counters env rest
       (sp\<lparr>min_val := (min_val sp)[unat idx := readl env (trace sp) (HOST1X_SYNC_SYNCPT idx)],
           trace := trace sp @ [Readl (HOST1X_SYNC_SYNCPT idx)]\<rparr>)"

fun reads_within_max :: "config \<Rightarrow> environment \<Rightarrow> u32 list \<Rightarrow> nvhost_syncpt \<Rightarrow> bool" where
  "reads_within_max cfg env [] sp = True"
| "reads_within_max cfg env (idx # rest) sp =
     (check_max cfg sp idx (readl env (trace sp) (HOST1X_SYNC_SYNCPT idx)) = Inr True \<and>
      reads_within_max cfg env rest
        (sp\<lparr>min_val := (min_val sp)[unat idx := readl env (trace sp) (HOST1X_SYNC_SYNCPT idx)],
            trace := trace sp @ [Readl (HOST1X_SYNC_SYNCPT idx)]\<rparr>))"

definition stale :: "nvhost_syncpt \<Rightarrow> nvhost_waitchk \<Rightarrow> bool" where
  "stale sp w = (0 \<le> sint (min_val sp ! unat (syncpt_id w) - thresh w))"

fun patch_in_order ::
  "config \<Rightarrow> environment \<Rightarrow> nvhost_waitchk list \<Rightarrow> nvhost_syncpt \<Rightarrow>
     (fault + int) \<times> nvhost_syncpt" where
  "patch_in_order cfg env [] sp = (Inr 0, sp)"
| "patch_in_order cfg env (w # rest) sp =
     (let err = nvmap_patch_wait env (trace sp) (mem w) (offset w) (host_wait_override cfg);
          sp1 = sp\<lparr>trace := trace sp @ [PatchWait (mem w) (offset w) (host_wait_override cfg)]\<rparr>
      in if err \<noteq> 0 then (Inr err, sp1) else patch_in_order cfg env rest sp1)"

section \<open>A concrete device\<close>

text \<open>
  A configuration, an environment and a registry on which the theorems below are
  run: 32 counters, of which 24 and 25 are client-managed, a tick rate of 100, the
  all-ones timeout as the sentinel of waiting forever; hardware that reads 0
  everywhere, an interrupt dispatcher that accepts every action, sleeps that end
  by their timeout, and a patcher that succeeds.
\<close>

definition example_config :: config where
  "example_config =
     \<lparr>NVSYNCPTS_CLIENT_MANAGED = 0x03000000,
      NV_HOST1X_SYNCPT_NB_PTS = 32,
      HZ = 100,
      NVHOST_NO_TIMEOUT = 0xFFFFFFFF,
      host_wait_override = 0\<rparr>"

definition example_env :: environment where
  "example_env =
     \<lparr>readl = (\<lambda>tr r. 0),
      nvhost_intr_add_action = (\<lambda>tr cid thr. (0, 7)),
      wait_event_interruptible_timeout = (\<lambda>tr check. 0),
      nvmap_patch_wait = (\<lambda>tr m off v. 0)\<rparr>"

definition example_sp :: nvhost_syncpt where
  "example_sp =
     \<lparr>min_val = replicate 32 0,
      max_val = replicate 32 0,
      base_val = replicate 8 0,
      trace = []\<rparr>"

text \<open>
  Variations of the concrete device: a registry where counter 3 has one unit of
  work reserved and none completed; a registry where counter 3 has completed
  \<open>2^31 - 1\<close> units and one more is reserved; a dispatcher that refuses every
  action; sleeps that are ended by a signal; hardware that reads 1 everywhere; two
  wait descriptors on counter 3, for the thresholds 1 and 5.
\<close>

definition pending_sp :: nvhost_syncpt where
  "pending_sp = example_sp\<lparr>max_val := (replicate 32 0)[3 := 1]\<rparr>"

definition horizon_sp :: nvhost_syncpt where
  "horizon_sp =
     example_sp\<lparr>min_val := (replicate 32 0)[3 := 0x7FFFFFFF],
                max_val := (replicate 32 0)[3 := 0x80000000]\<rparr>"

definition refusing_env :: environment where
  "refusing_env = example_env\<lparr>nvhost_intr_add_action := (\<lambda>tr cid thr. (- 12, 0))\<rparr>"


definition advancing_env :: environment where
  "advancing_env = example_env\<lparr>readl := (\<lambda>tr r. 1)\<rparr>"

definition pending_waits :: "nvhost_waitchk list" where
  "pending_waits =
     [\<lparr>mem = 1, offset = 0, syncpt_id = 3, thresh = 1\<rparr>,
      \<lparr>mem = 2, offset = 4, syncpt_id = 3, thresh = 5\<rparr>]"

section \<open>Properties\<close>

lemma sint_u32_alt:
  "sint (w :: u32) = (if uint w < 2 ^ 31 then uint w else uint w - 2 ^ 32)"
proof -
  have b: "0 \<le> uint w" "uint w < 2 ^ 32"
    using uint_lt2p [of w] by simp_all
  have "sint w = (uint w + 2 ^ 31) mod 2 ^ 32 - 2 ^ 31"
    by (simp add: sint_uint signed_take_bit_eq_take_bit_shift take_bit_eq_mod)
  also have "\<dots> = (if uint w < 2 ^ 31 then uint w else uint w - 2 ^ 32)"
  proof (cases "uint w < 2 ^ 31")
    case True
    then have "(uint w + 2 ^ 31) mod 2 ^ 32 = uint w + 2 ^ 31"
      using b by (intro mod_pos_pos_trivial) simp_all
    then show ?thesis using True by simp
  next
    case False
    then have "(uint w + 2 ^ 31) mod 2 ^ 32 = uint w + 2 ^ 31 - 2 ^ 32"
      using b by (subst mod_pos_geq) (simp_all add: mod_pos_pos_trivial)
    then show ?thesis using False by simp
  qed
  finally show ?thesis .
qed

lemma sint_nonneg_iff: "(0 \<le> sint (w :: u32)) = (w < 0x80000000)"
  using uint_lt2p [of w] by (simp add: sint_u32_alt word_less_alt)

lemma wrapping_comparison_less:
  "nvhost_syncpt_wrapping_comparison x y = (x - y < 0x80000000)"
  by (simp add: nvhost_syncpt_wrapping_comparison_def nvhost_syncpt_is_between_def)

text \<open>
  C1. For all 32-bit \<open>x\<close> and \<open>y\<close>, \<open>nvhost_syncpt_wrapping_comparison x y\<close> holds
  exactly when \<open>x - y\<close>, read as a signed 32-bit number, is not negative.
\<close>

theorem wrapping_comparison_signed:
  "nvhost_syncpt_wrapping_comparison x y = (0 \<le> sint (x - y))"
  by (simp add: wrapping_comparison_less sint_nonneg_iff)

lemma unat_sub_mod32:
  "unat (x - y :: u32) = (unat x + 2 ^ 32 - unat y) mod 2 ^ 32"
proof (cases "unat y \<le> unat x")
  case True
  have lt: "unat x - unat y < 2 ^ 32"
    using unsigned_less [of x, where 'a = nat] by simp
  have "unat x + 2 ^ 32 - unat y = (unat x - unat y) + 2 ^ 32"
    using True by simp
  then have "(unat x + 2 ^ 32 - unat y) mod 2 ^ 32 = ((unat x - unat y) + 2 ^ 32) mod 2 ^ 32"
    by (rule arg_cong)
  also have "\<dots> = (unat x - unat y) mod 2 ^ 32"
    by (rule mod_add_self2)
  also have "\<dots> = unat x - unat y"
    using lt by (rule mod_less)
  finally show ?thesis
    using True by (simp only: unat_sub_if' if_True)
next
  case False
  then have "unat x + 2 ^ 32 - unat y < 2 ^ 32"
    using unsigned_less [of y, where 'a = nat] by simp
  then show ?thesis
    using False by (simp add: unat_sub_if')
qed

text \<open>
  C2, as the code has it. \<open>nvhost_syncpt_wrapping_comparison x y\<close> holds exactly
  when \<open>x\<close> lies in the half-open window \<open>[y, y + 2^31)\<close> modulo \<open>2^32\<close>: the
  window starts at the second argument. So the comparison of 5 with 3 holds, that
  of 3 with 5 does not, that of \<open>0xFFFFFFF0\<close> with 5 does not, and that of 5 with
  \<open>0xFFFFFFF0\<close> (a value that wrapped past zero, against one from before the
  wrap) does.
\<close>

theorem wrapping_comparison_window:
  "nvhost_syncpt_wrapping_comparison x y = in_half_window y x \<and>
   nvhost_syncpt_wrapping_comparison 5 3 \<and>
   \<not> nvhost_syncpt_wrapping_comparison 3 5 \<and>
   \<not> nvhost_syncpt_wrapping_comparison 0xFFFFFFF0 0x00000005 \<and>
   nvhost_syncpt_wrapping_comparison 0x00000005 0xFFFFFFF0"
  by (simp add: wrapping_comparison_less in_half_window_def word_less_nat_alt unat_sub_mod32)

text \<open>
  C2, as the specification states it, fails: 5 lies in the window
  \<open>[0xFFFFFFF0, 0xFFFFFFF0 + 2^31)\<close> modulo \<open>2^32\<close>, and the comparison of
  \<open>0xFFFFFFF0\<close> with 5 is false.
\<close>

theorem wrapping_comparison_window_counterexample:
  "in_half_window 0xFFFFFFF0 0x00000005 \<and>
   \<not> nvhost_syncpt_wrapping_comparison 0xFFFFFFF0 0x00000005"
  by (simp add: wrapping_comparison_less in_half_window_def)

subsection \<open>Reading the hardware value\<close>

lemma update_min_loop_once:
  "update_min_loop env sp cid =
     (readl env (trace sp) (HOST1X_SYNC_SYNCPT cid),
      sp\<lparr>trace := trace sp @ [Readl (HOST1X_SYNC_SYNCPT cid)],
         min_val := (min_val sp)[unat cid := readl env (trace sp) (HOST1X_SYNC_SYNCPT cid)]\<rparr>)"
  by (subst update_min_loop.simps) (simp add: atomic_cmpxchg_def Let_def)

lemma update_min_ok:
  "nvhost_syncpt_update_min cfg env sp cid = (Inr v, sp1) \<Longrightarrow>
   unat cid < length (min_val sp) \<and>
   v = readl env (trace sp) (HOST1X_SYNC_SYNCPT cid) \<and>
   sp1 = sp\<lparr>trace := trace sp @ [Readl (HOST1X_SYNC_SYNCPT cid)],
            min_val := (min_val sp)[unat cid := v]\<rparr>"
  by (auto simp: nvhost_syncpt_update_min_def update_min_loop_once simp del: update_min_loop.simps
      split: if_splits sum.splits)

subsection \<open>Waiting\<close>

lemma min_eq_max_busy [simp]:
  "nvhost_syncpt_min_eq_max (nvhost_module_busy sp) cid = nvhost_syncpt_min_eq_max sp cid"
  by (simp add: nvhost_syncpt_min_eq_max_def nvhost_module_busy_def cong: sum.case_cong)

lemma wait_after_refresh:
  assumes "reaches_timeout_test cfg env sp cid thr sp2"
  shows "nvhost_syncpt_wait_timeout cfg env sp cid thr timeout =
     (if timeout = 0 then Some (Inr (- EAGAIN), nvhost_module_idle sp2)
      else
        let added = nvhost_intr_add_action env (trace sp2) cid thr;
            sp3 = sp2\<lparr>trace := trace sp2 @ [IntrAddAction cid thr]\<rparr>
        in
          if fst added \<noteq> 0 then Some (Inr (fst added), nvhost_module_idle sp3)
          else
            (case wait_loop cfg env cid thr timeout sp3 of
               None \<Rightarrow> None
             | Some (Inl f, sp4) \<Rightarrow> Some (Inl f, sp4)
             | Some (Inr err, sp4) \<Rightarrow>
                 Some (Inr (if err > 0 then 0 else if err = 0 then - EAGAIN else err),
                       nvhost_module_idle (sp4\<lparr>trace := trace sp4 @ [IntrPutRef (snd added)]\<rparr>))))"
  using assms
  by (auto simp: reaches_timeout_test_def nvhost_syncpt_wait_timeout_def Let_def
      split: sum.splits prod.splits if_splits)

lemma reaches_trace:
  assumes "reaches_timeout_test cfg env sp cid thr sp2"
  shows "trace sp2 = trace sp @ [ModuleBusy] \<or>
         trace sp2 = trace sp @ [ModuleBusy, Readl (HOST1X_SYNC_SYNCPT cid)]"
proof (cases "sp2 = nvhost_module_busy sp")
  case True
  then show ?thesis by (simp add: nvhost_module_busy_def)
next
  case False
  obtain r sp' where u: "nvhost_syncpt_update_min cfg env (nvhost_module_busy sp) cid = (r, sp')"
    by (cases "nvhost_syncpt_update_min cfg env (nvhost_module_busy sp) cid")
  from assms False u obtain val where "r = Inr val" "sp' = sp2"
    by (cases r) (auto simp: reaches_timeout_test_def split: sum.splits if_splits)
  with u have "nvhost_syncpt_update_min cfg env (nvhost_module_busy sp) cid = (Inr val, sp2)"
    by simp
  from update_min_ok [OF this] show ?thesis
    by (simp add: nvhost_module_busy_def)
qed

lemma pending_reaches:
  "reaches_timeout_test example_config env pending_sp 3 1
     (pending_sp\<lparr>min_val := (replicate 32 0)[3 := readl env [ModuleBusy] (HOST1X_SYNC_SYNCPT 3)],
                 trace := [ModuleBusy, Readl (HOST1X_SYNC_SYNCPT 3)]\<rparr>) =
   (\<not> 0 \<le> sint (readl env [ModuleBusy] (HOST1X_SYNC_SYNCPT 3) - 1) \<and>
    0 \<le> sint (1 - readl env [ModuleBusy] (HOST1X_SYNC_SYNCPT 3)))"
  by (auto simp add: reaches_timeout_test_def check_max_def client_managed_def BIT_def array_read_def
      nvhost_syncpt_min_cmp_def nvhost_syncpt_min_eq_max_def nvhost_syncpt_update_min_def
      update_min_loop_once nvhost_module_busy_def
      example_config_def pending_sp_def example_sp_def)

text \<open>
  C4, as the code has it. When the threshold passes the bound check of the first
  line (the counter is client-managed, or the threshold does not lie beyond
  \<open>max_val[id]\<close>) and the cached \<open>min_val[id]\<close> already satisfies it, the wait returns
  0 at once, for every timeout, and the registry with its trace is returned as it
  was: no register read, no claim on the power gate, no wake action.
\<close>

theorem wait_fast_path_no_effects:
  "check_max cfg sp cid thr = Inr True \<Longrightarrow> nvhost_syncpt_min_cmp sp cid thr = Inr True \<Longrightarrow>
   nvhost_syncpt_wait_timeout cfg env sp cid thr timeout = Some (Inr 0, sp)"
  by (simp add: nvhost_syncpt_wait_timeout_def)

text \<open>C4 on the concrete device: threshold 0 on the idle counter 3.\<close>

theorem wait_fast_path_no_effects_witness:
  "check_max example_config example_sp 3 0 = Inr True \<and>
   nvhost_syncpt_min_cmp example_sp 3 0 = Inr True \<and>
   nvhost_syncpt_wait_timeout example_config example_env example_sp 3 0 100 =
     Some (Inr 0, example_sp)"
proof -
  have a: "check_max example_config example_sp 3 0 = Inr True"
    by (simp add: check_max_def client_managed_def BIT_def array_read_def example_config_def
        example_sp_def)
  have b: "nvhost_syncpt_min_cmp example_sp 3 0 = Inr True"
    by (simp add: nvhost_syncpt_min_cmp_def array_read_def example_sp_def)
  from a b wait_fast_path_no_effects [OF a b] show ?thesis
    by simp
qed

text \<open>
  C4, as the specification states it, fails: with \<open>min_val[3] = 2^31 - 1\<close> and
  \<open>max_val[3] = 2^31\<close> the cached value satisfies the threshold 0, and the wait is
  fatal, because the threshold 0 lies beyond the maximum in the signed comparison.
\<close>

theorem wait_fast_path_counterexample:
  "nvhost_syncpt_min_cmp horizon_sp 3 0 = Inr True \<and>
   nvhost_syncpt_wait_timeout example_config example_env horizon_sp 3 0 100 =
     Some (Inl BUG, horizon_sp)"
  by (simp add: nvhost_syncpt_wait_timeout_def nvhost_syncpt_min_cmp_def check_max_def
      client_managed_def BIT_def array_read_def example_config_def horizon_sp_def example_sp_def)

text \<open>
  C5. When the wait arrives at the test of the timeout with the threshold not
  reached and the timeout is 0, it returns \<open>-EAGAIN\<close>; the events of the call are
  the claim on the power gate, the register read of the refresh if there was one,
  and the release of the claim, which is the last event. No wake action is
  registered and nothing sleeps.
\<close>

theorem wait_zero_timeout_would_block:
  "reaches_timeout_test cfg env sp cid thr sp2 \<Longrightarrow>
   nvhost_syncpt_wait_timeout cfg env sp cid thr 0 =
     Some (Inr (- EAGAIN), nvhost_module_idle sp2) \<and>
   (trace (nvhost_module_idle sp2) = trace sp @ [ModuleBusy, ModuleIdle] \<or>
    trace (nvhost_module_idle sp2) =
      trace sp @ [ModuleBusy, Readl (HOST1X_SYNC_SYNCPT cid), ModuleIdle])"
  using reaches_trace [of cfg env sp cid thr sp2]
  by (auto simp: wait_after_refresh nvhost_module_idle_def)

text \<open>
  C5 on the concrete device: counter 3 has threshold 1 reserved and the hardware
  still reads 0.
\<close>

theorem wait_zero_timeout_would_block_witness:
  "reaches_timeout_test example_config example_env pending_sp 3 1
     (pending_sp\<lparr>min_val := (replicate 32 0)[3 := 0],
                 trace := [ModuleBusy, Readl (HOST1X_SYNC_SYNCPT 3)]\<rparr>) \<and>
   nvhost_syncpt_wait_timeout example_config example_env pending_sp 3 1 0 =
     Some (Inr (- 11),
           pending_sp\<lparr>min_val := (replicate 32 0)[3 := 0],
                 trace := [ModuleBusy, Readl (HOST1X_SYNC_SYNCPT 3), ModuleIdle]\<rparr>)"
proof -
  have r: "reaches_timeout_test example_config example_env pending_sp 3 1
     (pending_sp\<lparr>min_val := (replicate 32 0)[3 := 0],
                 trace := [ModuleBusy, Readl (HOST1X_SYNC_SYNCPT 3)]\<rparr>)"
    using pending_reaches [of example_env] by (simp add: example_env_def)
  from r wait_zero_timeout_would_block [OF r] show ?thesis
    by (simp add: nvhost_module_idle_def EAGAIN_def)
qed

text \<open>
  C10. When the wait arrives at the test of the timeout with the threshold not
  reached, the timeout is not 0 and the interrupt dispatcher answers the
  registration with an error, the wait returns that error; after the registration
  the only event is the release of the power claim: no sleep, and no release of a
  wake reference.
\<close>

theorem wait_add_action_failure:
  "reaches_timeout_test cfg env sp cid thr sp2 \<Longrightarrow> timeout \<noteq> 0 \<Longrightarrow>
   fst (nvhost_intr_add_action env (trace sp2) cid thr) \<noteq> 0 \<Longrightarrow>
   nvhost_syncpt_wait_timeout cfg env sp cid thr timeout =
     Some (Inr (fst (nvhost_intr_add_action env (trace sp2) cid thr)),
           sp2\<lparr>trace := trace sp2 @ [IntrAddAction cid thr, ModuleIdle]\<rparr>)"
  by (simp add: wait_after_refresh nvhost_module_idle_def Let_def)

text \<open>C10 on the concrete device, with a dispatcher that answers \<open>-12\<close>.\<close>

theorem wait_add_action_failure_witness:
  "reaches_timeout_test example_config refusing_env pending_sp 3 1
     (pending_sp\<lparr>min_val := (replicate 32 0)[3 := 0],
                 trace := [ModuleBusy, Readl (HOST1X_SYNC_SYNCPT 3)]\<rparr>) \<and>
   (100 :: u32) \<noteq> 0 \<and>
   fst (nvhost_intr_add_action refusing_env [ModuleBusy, Readl (HOST1X_SYNC_SYNCPT 3)] 3 1) = - 12 \<and>
   nvhost_syncpt_wait_timeout example_config refusing_env pending_sp 3 1 100 =
     Some (Inr (- 12),
           pending_sp\<lparr>min_val := (replicate 32 0)[3 := 0],
                 trace := [ModuleBusy, Readl (HOST1X_SYNC_SYNCPT 3), IntrAddAction 3 1, ModuleIdle]\<rparr>)"
proof -
  let ?sp2 = "pending_sp\<lparr>min_val := (replicate 32 0)[3 := 0],
                 trace := [ModuleBusy, Readl (HOST1X_SYNC_SYNCPT 3)]\<rparr>"
  have r: "reaches_timeout_test example_config refusing_env pending_sp 3 1 ?sp2"
    using pending_reaches [of refusing_env] by (simp add: refusing_env_def example_env_def)
  have t: "(100 :: u32) \<noteq> 0"
    by simp
  have e: "fst (nvhost_intr_add_action refusing_env (trace ?sp2) 3 1) \<noteq> 0"
    by (simp add: refusing_env_def)
  from r wait_add_action_failure [OF r t e] show ?thesis
    by (simp add: refusing_env_def)
qed

lemma name_in_range: "unat cid < 32 \<Longrightarrow> nvhost_syncpt_name cid = Inr (s_syncpt_names ! unat cid)"
  by (simp add: nvhost_syncpt_name_def s_syncpt_names_def)

lemma wait_loop_odd_never_returns:
  assumes ret: "wait_loop cfg env cid thr timeout sp = Some r"
    and odd: "odd timeout"
    and cid: "unat cid < 32"
    and sleep: "\<forall>tr check. wait_event_interruptible_timeout env tr check = 0"
  shows False
proof -
  have "odd timeout \<longrightarrow> unat cid < 32 \<longrightarrow>
      (\<forall>tr check. wait_event_interruptible_timeout env tr check = 0) \<longrightarrow> False"
  proof (rule wait_loop.raw_induct
      [where P = "\<lambda>cfg env cid thr timeout sp r. odd timeout \<longrightarrow> unat cid < 32 \<longrightarrow>
         (\<forall>tr check. wait_event_interruptible_timeout env tr check = 0) \<longrightarrow> False",
        OF _ ret], goal_cases)
    case (1 f cfg env cid thr timeout sp r)
    show ?case
    proof (intro impI)
      assume o: "odd timeout" and c: "unat cid < 32"
        and s: "\<forall>tr check. wait_event_interruptible_timeout env tr check = 0"
      let ?t1 = "if timeout \<noteq> NVHOST_NO_TIMEOUT cfg then timeout - 2 * HZ cfg else timeout"
      let ?sp1 = "sp\<lparr>trace := trace sp @ [WaitEvent cid thr (min (2 * HZ cfg) timeout)]\<rparr>"
      have o1: "odd ?t1"
        using o by auto
      then have nz: "?t1 \<noteq> 0" "timeout \<noteq> 0"
        using o by auto
      have nm: "nvhost_syncpt_name cid = Inr (s_syncpt_names ! unat cid)"
        using c by (rule name_in_range)
      have "f cfg env cid thr ?t1
          (?sp1\<lparr>trace := trace ?sp1 @ [DevWarn cid (s_syncpt_names ! unat cid) thr ?t1]\<rparr>) = Some r"
        using 1(2) nz nm s by (simp add: Let_def split: if_splits)
      from 1(1) [OF this] o1 c s show False
        by blast
    qed
  qed
  with odd cid sleep show False
    by blast
qed

lemma wait_loop_odd_None:
  "odd timeout \<Longrightarrow> unat cid < 32 \<Longrightarrow>
   \<forall>tr check. wait_event_interruptible_timeout env tr check = 0 \<Longrightarrow>
   wait_loop cfg env cid thr timeout sp = None"
  using wait_loop_odd_never_returns [of cfg env cid thr timeout sp] by (cases "wait_loop cfg env cid thr timeout sp") auto

text \<open>
  C3. With the tick rate 100 the check period is 200. A wait with timeout 1 on a
  threshold that is never reached, with no signal, sleeps for a slice of 1 tick and
  then subtracts the whole period, not the slice: the remaining timeout wraps to
  \<open>2^32 - 199\<close>, stays odd, and never becomes 0. The call does not return.
\<close>

theorem wait_short_timeout_never_returns:
  "min (2 * HZ example_config) 1 = 1 \<and>
   1 - 2 * HZ example_config = 0xFFFFFF39 \<and>
   nvhost_syncpt_wait_timeout example_config example_env pending_sp 3 1 1 = None"
proof -
  let ?sp2 = "pending_sp\<lparr>min_val := (replicate 32 0)[3 := 0],
                 trace := [ModuleBusy, Readl (HOST1X_SYNC_SYNCPT 3)]\<rparr>"
  have r: "reaches_timeout_test example_config example_env pending_sp 3 1 ?sp2"
    using pending_reaches [of example_env] by (simp add: example_env_def)
  have l: "wait_loop example_config example_env 3 1 1 sp = None" for sp
    by (rule wait_loop_odd_None) (simp_all add: example_env_def)
  have a: "nvhost_intr_add_action example_env tr 3 1 = (0, 7)" for tr
    by (simp add: example_env_def)
  have "nvhost_syncpt_wait_timeout example_config example_env pending_sp 3 1 1 = None"
    by (simp add: wait_after_refresh [OF r] a l)
  then show ?thesis
    by (simp add: example_config_def)
qed







subsection \<open>Incrementing\<close>

lemma cpu_incr_bug:
  "client_managed cfg cid = Inr False \<Longrightarrow> nvhost_syncpt_min_eq_max sp cid = Inr True \<Longrightarrow>
   fst (nvhost_syncpt_cpu_incr cfg sp cid) = Inl BUG"
  by (simp add: nvhost_syncpt_cpu_incr_def)

lemma client_managed_BIT:
  "client_managed cfg cid = Inr b \<Longrightarrow> BIT cid = Inr (push_bit (unat cid) 1)"
  by (auto simp: client_managed_def BIT_def split: if_splits sum.splits)

lemma cpu_incr_client:
  "client_managed cfg cid = Inr True \<Longrightarrow>
   nvhost_syncpt_cpu_incr cfg sp cid =
     (Inr (), sp\<lparr>trace := trace sp @ [Writel (push_bit (unat cid) 1) HOST1X_SYNC_SYNCPT_CPU_INCR, Wmb]\<rparr>)"
  by (frule client_managed_BIT) (simp add: nvhost_syncpt_cpu_incr_def)

lemma incr_ok:
  assumes "unat cid < length (max_val sp)" "unat cid < length (min_val sp)"
    and "client_managed cfg cid = Inr cm"
    and "cm \<or> min_val sp ! unat cid \<noteq> max_val sp ! unat cid + 1"
  shows "nvhost_syncpt_incr cfg sp cid =
     (Inr (), sp\<lparr>max_val := (max_val sp)[unat cid := max_val sp ! unat cid + 1],
                 trace := trace sp @ [ModuleBusy, Writel (push_bit (unat cid) 1) HOST1X_SYNC_SYNCPT_CPU_INCR, Wmb, ModuleIdle]\<rparr>)"
  using assms client_managed_BIT [OF assms(3)]
  by (auto simp: nvhost_syncpt_incr_def nvhost_syncpt_incr_max_def nvhost_syncpt_cpu_incr_def
      nvhost_module_busy_def nvhost_module_idle_def nvhost_syncpt_min_eq_max_def array_read_def)

lemma incr_bug:
  assumes "unat cid < length (max_val sp)" "unat cid < length (min_val sp)"
    and "client_managed cfg cid = Inr False"
  shows "(fst (nvhost_syncpt_incr cfg sp cid) = Inl BUG) = (min_val sp ! unat cid = max_val sp ! unat cid + 1)"
  using assms client_managed_BIT [OF assms(3)]
  by (auto simp: nvhost_syncpt_incr_def nvhost_syncpt_incr_max_def nvhost_syncpt_cpu_incr_def
      nvhost_module_busy_def nvhost_module_idle_def nvhost_syncpt_min_eq_max_def array_read_def)

lemma incr_order:
  "unat cid < length (max_val sp) \<Longrightarrow>
   fst (nvhost_syncpt_incr cfg sp cid) =
   fst (nvhost_syncpt_cpu_incr cfg
          (nvhost_module_busy
             (sp\<lparr>max_val := (max_val sp)[unat cid := max_val sp ! unat cid + 1]\<rparr>)) cid)"
  by (simp add: nvhost_syncpt_incr_def nvhost_syncpt_incr_max_def split: prod.splits sum.splits)

text \<open>
  C7. \<open>nvhost_syncpt_incr\<close> adds exactly one to \<open>max_val[id]\<close> first and only then
  issues the increment pulse, between marking the device busy and marking it idle:
  its outcome is that of \<open>nvhost_syncpt_cpu_incr\<close> run on the registry whose
  \<open>max_val[id]\<close> is already incremented, so the pulse is refused only when
  \<open>min_val[id]\<close> equals the new maximum, and otherwise the call leaves the
  incremented maximum and the events busy, pulse, barrier, idle.
  \<open>nvhost_syncpt_cpu_incr\<close> is fatal for every counter that is not client-managed
  and whose \<open>min_val\<close> equals its \<open>max_val\<close>; for a client-managed counter it is
  never fatal and writes one pulse, the bit of that counter.
\<close>

theorem incr_reserves_then_pulses:
  "(unat cid < length (max_val sp) \<longrightarrow>
      fst (nvhost_syncpt_incr cfg sp cid) =
      fst (nvhost_syncpt_cpu_incr cfg
             (nvhost_module_busy
                (sp\<lparr>max_val := (max_val sp)[unat cid := max_val sp ! unat cid + 1]\<rparr>)) cid)) \<and>
   (unat cid < length (max_val sp) \<and> unat cid < length (min_val sp) \<and>
    client_managed cfg cid = Inr cm \<and>
    (cm \<or> min_val sp ! unat cid \<noteq> max_val sp ! unat cid + 1) \<longrightarrow>
      nvhost_syncpt_incr cfg sp cid =
        (Inr (),
         sp\<lparr>max_val := (max_val sp)[unat cid := max_val sp ! unat cid + 1],
            trace := trace sp @
              [ModuleBusy, Writel (push_bit (unat cid) 1) HOST1X_SYNC_SYNCPT_CPU_INCR, Wmb,
               ModuleIdle]\<rparr>)) \<and>
   (unat cid < length (max_val sp) \<and> unat cid < length (min_val sp) \<and>
    client_managed cfg cid = Inr False \<longrightarrow>
      (fst (nvhost_syncpt_incr cfg sp cid) = Inl BUG) =
      (min_val sp ! unat cid = max_val sp ! unat cid + 1)) \<and>
   (client_managed cfg cid = Inr False \<and> nvhost_syncpt_min_eq_max sp cid = Inr True \<longrightarrow>
      fst (nvhost_syncpt_cpu_incr cfg sp cid) = Inl BUG) \<and>
   (client_managed cfg cid = Inr True \<longrightarrow>
      nvhost_syncpt_cpu_incr cfg sp cid =
        (Inr (),
         sp\<lparr>trace := trace sp @
              [Writel (push_bit (unat cid) 1) HOST1X_SYNC_SYNCPT_CPU_INCR, Wmb]\<rparr>))"
  using incr_order [of cid sp cfg] incr_ok [of cid sp cfg cm] incr_bug [of cid sp cfg]
    cpu_incr_bug [of cfg cid sp] cpu_incr_client [of cfg cid sp]
  by blast

text \<open>
  C7 on the concrete device: counter 3 is not client-managed and drained, so the
  pulse alone is fatal and the full increment succeeds; counter 24 is
  client-managed.
\<close>

theorem incr_reserves_then_pulses_witness:
  "unat (3 :: u32) < length (max_val example_sp) \<and>
   unat (3 :: u32) < length (min_val example_sp) \<and>
   client_managed example_config 3 = Inr False \<and>
   min_val example_sp ! unat (3 :: u32) \<noteq> max_val example_sp ! unat (3 :: u32) + 1 \<and>
   nvhost_syncpt_min_eq_max example_sp 3 = Inr True \<and>
   fst (nvhost_syncpt_cpu_incr example_config example_sp 3) = Inl BUG \<and>
   fst (nvhost_syncpt_incr example_config example_sp 3) \<noteq> Inl BUG \<and>
   nvhost_syncpt_incr example_config example_sp 3 =
     (Inr (),
      example_sp\<lparr>max_val := (replicate 32 0)[3 := 1],
         trace := [ModuleBusy, Writel 8 HOST1X_SYNC_SYNCPT_CPU_INCR, Wmb, ModuleIdle]\<rparr>) \<and>
   client_managed example_config 24 = Inr True \<and>
   nvhost_syncpt_cpu_incr example_config example_sp 24 =
     (Inr (), example_sp\<lparr>trace := [Writel 0x1000000 HOST1X_SYNC_SYNCPT_CPU_INCR, Wmb]\<rparr>)"
proof -
  have a: "unat (3 :: u32) < length (max_val example_sp)"
    "unat (3 :: u32) < length (min_val example_sp)"
    "min_val example_sp ! unat (3 :: u32) \<noteq> max_val example_sp ! unat (3 :: u32) + 1"
    by (simp_all add: example_sp_def)
  have b: "client_managed example_config 3 = Inr False"
    "client_managed example_config 24 = Inr True"
    by (simp_all add: client_managed_def BIT_def example_config_def)
  have c: "nvhost_syncpt_min_eq_max example_sp 3 = Inr True"
    by (simp add: nvhost_syncpt_min_eq_max_def array_read_def example_sp_def)
  show ?thesis
    using a b c
      incr_reserves_then_pulses [of 3 example_sp example_config False]
      incr_reserves_then_pulses [of 24 example_sp example_config True]
    by (simp add: example_sp_def)
qed

subsection \<open>Removing waits that are already satisfied\<close>

lemma BIT_flagged:
  "unat idx < 32 \<Longrightarrow> BIT idx = Inr b \<Longrightarrow> (b AND wmask \<noteq> 0) = flagged wmask idx"
  by (auto simp: BIT_def flagged_def bit_iff_and_push_bit_not_eq_0 and.commute)

lemma wait_check_refresh_flagged:
  "\<forall>idx \<in> set idxs. unat idx < 32 \<Longrightarrow>
   wait_check_refresh cfg env wmask idxs sp = refresh_mins cfg env (filter (flagged wmask) idxs) sp"
proof (induction idxs arbitrary: sp)
  case Nil
  show ?case by simp
next
  case (Cons idx rest)
  then have lt: "unat idx < 32" and rest: "\<forall>i \<in> set rest. unat i < 32"
    by simp_all
  have b: "BIT idx = Inr (push_bit (unat idx) 1)"
    using lt by (simp add: BIT_def)
  show ?case
    using Cons.IH [OF rest] BIT_flagged [OF lt b, of wmask]
    by (simp add: b split: prod.splits sum.splits)
qed

lemma counters_small:
  "unat (NV_HOST1X_SYNCPT_NB_PTS cfg) \<le> 32 \<Longrightarrow> \<forall>idx \<in> set (counters cfg). unat idx < 32"
  by (auto simp: counters_def unat_of_nat)

lemma check_max_frame:
  "check_max cfg (sp\<lparr>trace := tr, min_val := mv\<rparr>) cid v = check_max cfg sp cid v"
  "check_max cfg (sp\<lparr>min_val := mv, trace := tr\<rparr>) cid v = check_max cfg sp cid v"
  by (simp_all add: check_max_def split: sum.splits)

lemma update_min_stores:
  "unat cid < length (min_val sp) \<Longrightarrow>
   check_max cfg sp cid (readl env (trace sp) (HOST1X_SYNC_SYNCPT cid)) = Inr True \<Longrightarrow>
   nvhost_syncpt_update_min cfg env sp cid =
     (Inr (readl env (trace sp) (HOST1X_SYNC_SYNCPT cid)),
      sp\<lparr>min_val := (min_val sp)[unat cid := readl env (trace sp) (HOST1X_SYNC_SYNCPT cid)],
         trace := trace sp @ [Readl (HOST1X_SYNC_SYNCPT cid)]\<rparr>)"
  by (simp add: nvhost_syncpt_update_min_def update_min_loop_once check_max_frame)

lemma refresh_mins_read_counters:
  "reads_within_max cfg env idxs sp \<Longrightarrow>
   \<forall>idx \<in> set idxs. unat idx < length (min_val sp) \<Longrightarrow>
   refresh_mins cfg env idxs sp = (Inr (), read_counters env idxs sp)"
proof (induction idxs arbitrary: sp)
  case Nil
  show ?case by simp
next
  case (Cons idx rest)
  let ?sp1 = "sp\<lparr>min_val := (min_val sp)[unat idx := readl env (trace sp) (HOST1X_SYNC_SYNCPT idx)],
           trace := trace sp @ [Readl (HOST1X_SYNC_SYNCPT idx)]\<rparr>"
  have um: "nvhost_syncpt_update_min cfg env sp idx =
      (Inr (readl env (trace sp) (HOST1X_SYNC_SYNCPT idx)), ?sp1)"
    using Cons.prems by (intro update_min_stores) simp_all
  have "refresh_mins cfg env rest ?sp1 = (Inr (), read_counters env rest ?sp1)"
    using Cons.prems by (intro Cons.IH) simp_all
  then show ?case
    by (simp add: um)
qed

lemma read_counters_frame:
  "trace (read_counters env idxs sp) =
     trace sp @ map (\<lambda>idx. Readl (HOST1X_SYNC_SYNCPT idx)) idxs \<and>
   length (min_val (read_counters env idxs sp)) = length (min_val sp) \<and>
   max_val (read_counters env idxs sp) = max_val sp \<and>
   (\<forall>i. i \<notin> unat ` set idxs \<longrightarrow> min_val (read_counters env idxs sp) ! i = min_val sp ! i)"
  by (induction idxs arbitrary: sp) auto

lemma read_counters_stores:
  "distinct (map unat idxs) \<Longrightarrow> \<forall>idx \<in> set idxs. unat idx < length (min_val sp) \<Longrightarrow>
   j < length idxs \<Longrightarrow>
   min_val (read_counters env idxs sp) ! unat (idxs ! j) =
     readl env (trace sp @ map (\<lambda>idx. Readl (HOST1X_SYNC_SYNCPT idx)) (take j idxs))
       (HOST1X_SYNC_SYNCPT (idxs ! j))"
proof (induction idxs arbitrary: sp j)
  case Nil
  then show ?case by simp
next
  case (Cons idx rest)
  let ?sp1 = "sp\<lparr>min_val := (min_val sp)[unat idx := readl env (trace sp) (HOST1X_SYNC_SYNCPT idx)],
           trace := trace sp @ [Readl (HOST1X_SYNC_SYNCPT idx)]\<rparr>"
  show ?case
  proof (cases j)
    case 0
    have "unat idx \<notin> unat ` set rest"
      using Cons.prems(1) by auto
    then have "min_val (read_counters env rest ?sp1) ! unat idx = min_val ?sp1 ! unat idx"
      using read_counters_frame [of env rest ?sp1] by blast
    then show ?thesis
      using 0 Cons.prems(2) by simp
  next
    case (Suc k)
    have "min_val (read_counters env rest ?sp1) ! unat (rest ! k) =
        readl env (trace ?sp1 @ map (\<lambda>idx. Readl (HOST1X_SYNC_SYNCPT idx)) (take k rest))
          (HOST1X_SYNC_SYNCPT (rest ! k))"
      using Cons.prems Suc by (intro Cons.IH) simp_all
    then show ?thesis
      using Suc by simp
  qed
qed

lemma counters_unat: "map unat (counters cfg) = [0 ..< unat (NV_HOST1X_SYNCPT_NB_PTS cfg)]"
proof -
  have "unat (of_nat k :: u32) = k" if "k < unat (NV_HOST1X_SYNCPT_NB_PTS cfg)" for k
  proof -
    have "unat (NV_HOST1X_SYNCPT_NB_PTS cfg) < 2 ^ 32"
      using unsigned_less [of "NV_HOST1X_SYNCPT_NB_PTS cfg", where 'a = nat] by simp
    with that show ?thesis
      by (simp add: unat_of_nat)
  qed
  then have "map (\<lambda>k. unat (of_nat k :: u32)) [0 ..< unat (NV_HOST1X_SYNCPT_NB_PTS cfg)] =
      [0 ..< unat (NV_HOST1X_SYNCPT_NB_PTS cfg)]"
    by (intro map_idI) simp
  then show ?thesis
    by (simp add: counters_def comp_def)
qed

lemma flagged_counters_distinct:
  "distinct (map unat (filter (flagged wmask) (counters cfg)))"
proof -
  have "distinct (map unat (counters cfg))"
    by (simp add: counters_unat)
  then show ?thesis
    by (rule distinct_map_filter)
qed

lemma counters_in_range:
  assumes "idx \<in> set (counters cfg)"
  shows "unat idx < unat (NV_HOST1X_SYNCPT_NB_PTS cfg)"
proof -
  from assms have "unat idx \<in> unat ` set (counters cfg)"
    by (rule imageI)
  then have "unat idx \<in> set (map unat (counters cfg))"
    by simp
  then show ?thesis
    by (simp only: counters_unat) simp
qed

lemma wait_check_loop_stale:
  "\<forall>w \<in> set ws. syncpt_id w \<le> NV_HOST1X_SYNCPT_NB_PTS cfg \<and> unat (syncpt_id w) < length (min_val sp) \<Longrightarrow>
   wait_check_loop cfg env ws (length ws) sp = patch_in_order cfg env (filter (stale sp) ws) sp"
proof (induction ws arbitrary: sp)
  case Nil
  show ?case by simp
next
  case (Cons w rest)
  let ?sp1 = "sp\<lparr>trace := trace sp @ [PatchWait (mem w) (offset w) (host_wait_override cfg)]\<rparr>"
  have st: "stale ?sp1 = stale sp"
    by (simp add: stale_def fun_eq_iff)
  have r1: "\<forall>w \<in> set rest. syncpt_id w \<le> NV_HOST1X_SYNCPT_NB_PTS cfg \<and> unat (syncpt_id w) < length (min_val ?sp1)"
    and r0: "\<forall>w \<in> set rest. syncpt_id w \<le> NV_HOST1X_SYNCPT_NB_PTS cfg \<and> unat (syncpt_id w) < length (min_val sp)"
    using Cons.prems by simp_all
  have w: "\<not> syncpt_id w > NV_HOST1X_SYNCPT_NB_PTS cfg" "unat (syncpt_id w) < length (min_val sp)"
    using Cons.prems by (simp_all add: not_less)
  show ?case
    using Cons.IH [OF r1] Cons.IH [OF r0] w
    by (simp add: st array_read_def Let_def stale_def wrapping_comparison_less sint_nonneg_iff)
qed

text \<open>
  C8. Let the array have its declared length, the list hold \<open>waitchks\<close>
  descriptors with counter ids in range, and every value that the hardware gives
  for a flagged counter pass the bound check. Then \<open>nvhost_syncpt_wait_check\<close>
  first reads the hardware value of exactly the flagged counters, in index order,
  and stores each value read in the \<open>min_val\<close> of its counter, leaving the
  \<open>min_val\<close> of every other counter as it was; then it patches, in list order,
  exactly the descriptors whose counter has reached their threshold in the
  refreshed \<open>min_val\<close>, up to and including the first patch that fails. That
  failure is the value returned and nothing is undone; without a failure the value
  is 0.
\<close>

theorem wait_check_patches_stale_waits:
  assumes nb: "unat (NV_HOST1X_SYNCPT_NB_PTS cfg) \<le> 32"
    and len: "length (min_val sp) = unat (NV_HOST1X_SYNCPT_NB_PTS cfg)"
    and ok: "reads_within_max cfg env (filter (flagged wmask) (counters cfg)) sp"
    and n: "unat waitchks = length ws"
    and ids: "\<forall>w \<in> set ws. syncpt_id w < NV_HOST1X_SYNCPT_NB_PTS cfg"
  shows
    "(let fl = filter (flagged wmask) (counters cfg);
          sp1 = read_counters env fl sp
      in nvhost_syncpt_wait_check cfg env sp wmask (Some ws) waitchks =
           patch_in_order cfg env (filter (stale sp1) ws) sp1 \<and>
         trace sp1 = trace sp @ map (\<lambda>idx. Readl (HOST1X_SYNC_SYNCPT idx)) fl \<and>
         (\<forall>j. j < length fl \<longrightarrow>
              min_val sp1 ! unat (fl ! j) =
                readl env (trace sp @ map (\<lambda>idx. Readl (HOST1X_SYNC_SYNCPT idx)) (take j fl))
                  (HOST1X_SYNC_SYNCPT (fl ! j))) \<and>
         (\<forall>i. i \<notin> unat ` set fl \<longrightarrow> min_val sp1 ! i = min_val sp ! i))"
proof -
  let ?fl = "filter (flagged wmask) (counters cfg)"
  let ?sp1 = "read_counters env ?fl sp"
  note frame = read_counters_frame [of env ?fl sp]
  have rng: "\<forall>idx \<in> set ?fl. unat idx < length (min_val sp)"
    using counters_in_range [of _ cfg] len by simp
  have "refresh_mins cfg env ?fl sp = (Inr (), ?sp1)"
    using ok rng by (rule refresh_mins_read_counters)
  then have r: "wait_check_refresh cfg env wmask (counters cfg) sp = (Inr (), ?sp1)"
    using wait_check_refresh_flagged [OF counters_small [OF nb]] by simp
  have "\<forall>w \<in> set ws. syncpt_id w \<le> NV_HOST1X_SYNCPT_NB_PTS cfg \<and>
          unat (syncpt_id w) < length (min_val ?sp1)"
    using ids frame len by (auto simp: word_less_nat_alt word_le_nat_alt dest!: bspec)
  then have "wait_check_loop cfg env ws (length ws) ?sp1 =
      patch_in_order cfg env (filter (stale ?sp1) ws) ?sp1"
    by (rule wait_check_loop_stale)
  then have main: "nvhost_syncpt_wait_check cfg env sp wmask (Some ws) waitchks =
      patch_in_order cfg env (filter (stale ?sp1) ws) ?sp1"
    using r n by (simp add: nvhost_syncpt_wait_check_def counters_def)
  have stores: "\<forall>j. j < length ?fl \<longrightarrow>
      min_val ?sp1 ! unat (?fl ! j) =
        readl env (trace sp @ map (\<lambda>idx. Readl (HOST1X_SYNC_SYNCPT idx)) (take j ?fl))
          (HOST1X_SYNC_SYNCPT (?fl ! j))"
    using read_counters_stores [OF flagged_counters_distinct rng] by blast
  show ?thesis
    unfolding Let_def using main stores frame by blast
qed

lemma counters_example: "filter (flagged 8) (counters example_config) = [3]"
  by (simp add: counters_def example_config_def flagged_def upt_rec [of _ "numeral _"]
      bit_numeral_simps)

text \<open>
  C8 on the concrete device: bit 3 of the mask is set and counter 3 reads 1. Before
  the refresh no descriptor is stale; after it the first descriptor, which waits
  for 1, is patched, and the second, which waits for 5, is left.
\<close>

theorem wait_check_patches_stale_waits_witness:
  "unat (NV_HOST1X_SYNCPT_NB_PTS example_config) \<le> 32 \<and>
   length (min_val pending_sp) = unat (NV_HOST1X_SYNCPT_NB_PTS example_config) \<and>
   reads_within_max example_config advancing_env (filter (flagged 8) (counters example_config))
     pending_sp \<and>
   unat (2 :: u32) = length pending_waits \<and>
   list_all (\<lambda>w. syncpt_id w < NV_HOST1X_SYNCPT_NB_PTS example_config) pending_waits \<and>
   filter (stale pending_sp) pending_waits = [] \<and>
   nvhost_syncpt_wait_check example_config advancing_env pending_sp 8 (Some pending_waits) 2 =
     (Inr 0, pending_sp\<lparr>min_val := (replicate 32 0)[3 := 1],
                         trace := [Readl (HOST1X_SYNC_SYNCPT 3), PatchWait 1 0 0]\<rparr>)"
proof -
  have h1: "unat (NV_HOST1X_SYNCPT_NB_PTS example_config) \<le> 32"
    by (simp add: example_config_def)
  have h2: "length (min_val pending_sp) = unat (NV_HOST1X_SYNCPT_NB_PTS example_config)"
    by (simp add: example_config_def pending_sp_def example_sp_def)
  have h3: "reads_within_max example_config advancing_env
      (filter (flagged 8) (counters example_config)) pending_sp"
    by (subst counters_example)
      (simp add: check_max_def client_managed_def BIT_def array_read_def example_config_def
        pending_sp_def example_sp_def advancing_env_def example_env_def)
  have h4: "unat (2 :: u32) = length pending_waits"
    by (simp add: pending_waits_def)
  have h5: "\<forall>w \<in> set pending_waits. syncpt_id w < NV_HOST1X_SYNCPT_NB_PTS example_config"
    by (simp add: pending_waits_def example_config_def)
  have before: "filter (stale pending_sp) pending_waits = []"
    by (simp add: pending_waits_def stale_def pending_sp_def example_sp_def)
  have sp1: "read_counters advancing_env (filter (flagged 8) (counters example_config)) pending_sp =
      pending_sp\<lparr>min_val := (replicate 32 0)[3 := 1], trace := [Readl (HOST1X_SYNC_SYNCPT 3)]\<rparr>"
    by (subst counters_example)
      (simp add: pending_sp_def example_sp_def advancing_env_def example_env_def)
  have "nvhost_syncpt_wait_check example_config advancing_env pending_sp 8 (Some pending_waits) 2 =
      patch_in_order example_config advancing_env
        (filter (stale (pending_sp\<lparr>min_val := (replicate 32 0)[3 := 1],
                          trace := [Readl (HOST1X_SYNC_SYNCPT 3)]\<rparr>)) pending_waits)
        (pending_sp\<lparr>min_val := (replicate 32 0)[3 := 1],
                    trace := [Readl (HOST1X_SYNC_SYNCPT 3)]\<rparr>)"
    using wait_check_patches_stale_waits [OF h1 h2 h3 h4 h5]
    by (simp only: Let_def sp1)
  then have "nvhost_syncpt_wait_check example_config advancing_env pending_sp 8
      (Some pending_waits) 2 =
     (Inr 0, pending_sp\<lparr>min_val := (replicate 32 0)[3 := 1],
                         trace := [Readl (HOST1X_SYNC_SYNCPT 3), PatchWait 1 0 0]\<rparr>)"
    by (simp add: pending_waits_def stale_def pending_sp_def example_sp_def advancing_env_def
        example_env_def example_config_def)
  with h1 h2 h3 h4 h5 before show ?thesis
    by (simp add: list_all_iff)
qed

subsection \<open>Counter ids at the boundary\<close>

lemma refresh_none: "filter (flagged 0) idxs = []"
  by (simp add: flagged_def)

text \<open>
  C9. The id 32 is outside the range of the 32 counters and of the 32 names, and
  neither \<^verbatim>\<open>BUG_ON\<close> stops it: the name lookup reads the table past its end,
  and \<open>nvhost_syncpt_wait_check\<close> reads \<open>min_val\<close> past its end for a descriptor
  with that id.
\<close>

theorem counter_id_boundary:
  "nvhost_syncpt_name 32 = Inl UNDEFINED \<and>
   nvhost_syncpt_wait_check example_config example_env example_sp 0
     (Some [\<lparr>mem = 1, offset = 0, syncpt_id = 32, thresh = 0\<rparr>]) 1 = (Inl UNDEFINED, example_sp)"
proof -
  have "wait_check_refresh example_config example_env 0 (counters example_config) example_sp =
      (Inr (), example_sp)"
    using wait_check_refresh_flagged [OF counters_small,
        where cfg = example_config and cfg1 = example_config and env = example_env
          and wmask = 0 and sp = example_sp]
    by (simp add: refresh_none example_config_def)
  then show ?thesis
    by (simp add: nvhost_syncpt_wait_check_def counters_def nvhost_syncpt_name_def s_syncpt_names_def
        array_read_def example_config_def example_sp_def)
qed

end
